theory Spec2Isabelle
  imports Complex_Main
begin

section \<open>JavaScript numbers\<close>

text \<open>
  The module computes with JavaScript numbers. A finite number is modelled by the
  rational it denotes; the two infinities and NaN are separate values, so that a
  division by a zero text height or line height gives what JavaScript gives and not
  an arbitrary rational. Two things are idealised: arithmetic on finite numbers is
  exact (no rounding to 53 bits), and the sign of zero is not tracked (every zero is
  \<open>+0\<close>).
\<close>

datatype jsnum = Num rat | PosInf | NegInf | NaN

fun js_neg :: "jsnum \<Rightarrow> jsnum" where
  "js_neg (Num a) = Num (- a)"
| "js_neg PosInf = NegInf"
| "js_neg NegInf = PosInf"
| "js_neg NaN = NaN"

fun js_add :: "jsnum \<Rightarrow> jsnum \<Rightarrow> jsnum" where
  "js_add (Num a) (Num b) = Num (a + b)"
| "js_add NaN y = NaN"
| "js_add x NaN = NaN"
| "js_add PosInf NegInf = NaN"
| "js_add NegInf PosInf = NaN"
| "js_add PosInf y = PosInf"
| "js_add x PosInf = PosInf"
| "js_add NegInf y = NegInf"
| "js_add x NegInf = NegInf"

definition js_sub :: "jsnum \<Rightarrow> jsnum \<Rightarrow> jsnum" where
  "js_sub x y = js_add x (js_neg y)"

fun js_sign :: "jsnum \<Rightarrow> rat" where
  "js_sign (Num a) = sgn a"
| "js_sign PosInf = 1"
| "js_sign NegInf = - 1"
| "js_sign NaN = 0"

definition inf_of_sign :: "rat \<Rightarrow> jsnum" where
  "inf_of_sign s = (if s = 0 then NaN else if 0 < s then PosInf else NegInf)"

fun js_mul :: "jsnum \<Rightarrow> jsnum \<Rightarrow> jsnum" where
  "js_mul (Num a) (Num b) = Num (a * b)"
| "js_mul NaN y = NaN"
| "js_mul x NaN = NaN"
| "js_mul x y = inf_of_sign (js_sign x * js_sign y)"

fun js_div :: "jsnum \<Rightarrow> jsnum \<Rightarrow> jsnum" where
  "js_div (Num a) (Num b) = (if b = 0 then inf_of_sign (sgn a) else Num (a / b))"
| "js_div NaN y = NaN"
| "js_div x NaN = NaN"
| "js_div (Num a) y = Num 0"
| "js_div x (Num b) = inf_of_sign (js_sign x * (if b < 0 then - 1 else 1))"
| "js_div x y = NaN"

fun js_lt :: "jsnum \<Rightarrow> jsnum \<Rightarrow> bool" where
  "js_lt (Num a) (Num b) = (a < b)"
| "js_lt NaN y = False"
| "js_lt x NaN = False"
| "js_lt x NegInf = False"
| "js_lt PosInf y = False"
| "js_lt x y = True"

definition js_gt :: "jsnum \<Rightarrow> jsnum \<Rightarrow> bool" where
  "js_gt x y = js_lt y x"

definition js_eq :: "jsnum \<Rightarrow> jsnum \<Rightarrow> bool" where
  \<comment> \<open>\<open>===\<close> on numbers: NaN is equal to nothing\<close>
  "js_eq x y = (if x = NaN then False else x = y)"

definition js_le :: "jsnum \<Rightarrow> jsnum \<Rightarrow> bool" where
  "js_le x y = (js_lt x y \<or> js_eq x y)"

fun js_ceil :: "jsnum \<Rightarrow> jsnum" where
  "js_ceil (Num a) = Num (of_int \<lceil>a\<rceil>)"
| "js_ceil x = x"

fun js_floor :: "jsnum \<Rightarrow> jsnum" where
  "js_floor (Num a) = Num (of_int \<lfloor>a\<rfloor>)"
| "js_floor x = x"

fun js_round :: "jsnum \<Rightarrow> jsnum" where
  \<comment> \<open>\<open>Math.round\<close>: the nearest integer, a half rounded towards \<open>+\<infinity>\<close>\<close>
  "js_round (Num a) = Num (of_int \<lfloor>a + 1 / 2\<rfloor>)"
| "js_round x = x"

section \<open>The editor as this module sees it\<close>

text \<open>
  Modelled from the spec: the \<open>Editor\<close> object and the CodeMirror instance behind it
  are not part of the module. The record holds what the module reads from them
  (scroll info, text height, cursor, selection flag, the offset of the line space,
  the inline widgets with their line number and height) and a log \<open>calls\<close> of every
  mutating call the module issues, oldest first. The two setters also store their
  argument; \<open>refreshAll\<close> and \<open>moveV\<close> are recorded only, since what they compute
  belongs to the widget and its document.
\<close>

record pos =
  line :: jsnum
  ch :: jsnum

record inline_widget =
  widget_line :: jsnum
  info_height :: jsnum

datatype editor_call =
    SetCursorPos pos
  | MoveV jsnum string
  | SetScrollPos jsnum jsnum
  | RefreshAll

record editor =
  scroll_left :: jsnum
  scroll_top :: jsnum
  client_height :: jsnum
  text_height :: jsnum
  cursor :: pos
  has_selection :: bool
  line_space_offset_top :: jsnum
  inline_widgets :: "inline_widget list"
  calls :: "editor_call list"

definition getTextHeight :: "editor \<Rightarrow> jsnum" where
  "getTextHeight e = text_height e"

definition getCursorPos :: "editor \<Rightarrow> pos" where
  "getCursorPos e = cursor e"

definition hasSelection :: "editor \<Rightarrow> bool" where
  "hasSelection e = has_selection e"

definition getInlineWidgets :: "editor \<Rightarrow> inline_widget list" where
  "getInlineWidgets e = inline_widgets e"

definition getInlineWidgetLineNumber :: "editor \<Rightarrow> inline_widget \<Rightarrow> jsnum" where
  "getInlineWidgetLineNumber e iw = widget_line iw"

definition setCursorPos :: "pos \<Rightarrow> editor \<Rightarrow> editor" where
  "setCursorPos p e = e\<lparr>cursor := p, calls := calls e @ [SetCursorPos p]\<rparr>"

definition setScrollPos :: "jsnum \<Rightarrow> jsnum \<Rightarrow> editor \<Rightarrow> editor" where
  "setScrollPos x y e =
     e\<lparr>scroll_left := x, scroll_top := y, calls := calls e @ [SetScrollPos x y]\<rparr>"

definition refreshAll :: "editor \<Rightarrow> editor" where
  "refreshAll e = e\<lparr>calls := calls e @ [RefreshAll]\<rparr>"

definition moveV :: "jsnum \<Rightarrow> string \<Rightarrow> editor \<Rightarrow> editor" where
  "moveV dir unit e = e\<lparr>calls := calls e @ [MoveV dir unit]\<rparr>"

section \<open>Lines in view\<close>

record lines_in_view =
  first :: jsnum
  lastLine :: jsnum

text \<open>\<open>_getLinesInView(editor, scrollTop, editorHeight)\<close>, as the source computes it.\<close>

definition getLinesInView :: "editor \<Rightarrow> jsnum \<Rightarrow> jsnum \<Rightarrow> lines_in_view" where
  "getLinesInView e scrollTop editorHeight =
     (let textHeight = getTextHeight e;
          scrolledTop = js_div scrollTop textHeight;
          scrolledBottom = js_div (js_add scrollTop editorHeight) textHeight;
          firstLine = js_sub (js_ceil scrolledTop) (Num 1);
          lastLine' = js_sub (js_floor scrolledBottom) (Num 2)
      in \<lparr>first = firstLine, lastLine = lastLine'\<rparr>)"


section \<open>Scrolling by one line\<close>

text \<open>
  The three variables the \<open>forEach\<close> callback of \<open>_scrollLine\<close> updates: the scroll top
  and the editor height used for the range computation, and the range itself.
\<close>

record range_state =
  scrollTop :: jsnum
  editorHeight :: jsnum
  linesInView :: lines_in_view

text \<open>The body of the callback, for one inline widget.\<close>

definition widget_step :: "editor \<Rightarrow> jsnum \<Rightarrow> range_state \<Rightarrow> inline_widget \<Rightarrow> range_state" where
  "widget_step e textHeight st inlineEditor =
     (let line' = getInlineWidgetLineNumber e inlineEditor;
          total = js_div (info_height inlineEditor) textHeight
      in if js_lt line' (first (linesInView st)) then
           (let scrollTop' = js_sub (scrollTop st) (info_height inlineEditor)
            in st\<lparr>scrollTop := scrollTop',
                  linesInView := getLinesInView e scrollTop' (editorHeight st)\<rparr>)
         else if js_lt (js_add line' total) (lastLine (linesInView st)) then
           (let editorHeight' = js_sub (editorHeight st) (info_height inlineEditor)
            in st\<lparr>editorHeight := editorHeight',
                  linesInView := getLinesInView e (scrollTop st) editorHeight'\<rparr>)
         else st)"

text \<open>The clamp of the scroll top, and the state before the first widget.\<close>

definition clampedScrollTop :: "jsnum \<Rightarrow> editor \<Rightarrow> jsnum" where
  "clampedScrollTop direction e =
     (let paddingTop = line_space_offset_top e
      in if js_lt (scroll_top e) paddingTop \<and> js_gt direction (Num 0)
         then paddingTop else scroll_top e)"

definition initial_range :: "jsnum \<Rightarrow> editor \<Rightarrow> range_state" where
  "initial_range direction e =
     (let scrollTop' = clampedScrollTop direction e;
          editorHeight' = client_height e
      in \<lparr>scrollTop = scrollTop', editorHeight = editorHeight',
          linesInView = getLinesInView e scrollTop' editorHeight'\<rparr>)"

definition widgets_range :: "jsnum \<Rightarrow> editor \<Rightarrow> range_state" where
  "widgets_range direction e =
     foldl (widget_step e (getTextHeight e)) (initial_range direction e) (getInlineWidgets e)"

text \<open>The cursor adjustment of \<open>_scrollLine\<close>.\<close>

definition adjustCursor :: "jsnum \<Rightarrow> lines_in_view \<Rightarrow> editor \<Rightarrow> editor" where
  "adjustCursor direction liv e =
     (let cursorPos = getCursorPos e;
          hasSelecction = hasSelection e
      in if hasSelecction then e
         else if js_gt direction (Num 0) \<and> js_lt (line cursorPos) (first liv) then
           setCursorPos \<lparr>line = js_add (first liv) (Num 1), ch = ch cursorPos\<rparr> e
         else if js_lt direction (Num 0) \<and> js_gt (line cursorPos) (lastLine liv) then
           setCursorPos \<lparr>line = js_sub (lastLine liv) (Num 1), ch = ch cursorPos\<rparr> e
         else if (js_gt direction (Num 0) \<and> js_eq (line cursorPos) (first liv)) \<or>
                 (js_lt direction (Num 0) \<and> js_eq (line cursorPos) (lastLine liv)) then
           moveV direction ''line'' e
         else e)"

text \<open>\<open>_scrollLine(direction)\<close> on the current full editor.\<close>

definition scrollLine :: "jsnum \<Rightarrow> editor \<Rightarrow> editor" where
  "scrollLine direction e =
     (let scrollInfo_left = scroll_left e;
          textHeight = getTextHeight e;
          scrolledTop = clampedScrollTop direction e;
          liv = linesInView (widgets_range direction e);
          e' = adjustCursor direction liv e
      in setScrollPos scrollInfo_left (js_add scrolledTop (js_mul textHeight direction)) e')"

section \<open>Strings of the style sheet\<close>

text \<open>
  The font size and the line height reach the module as strings. What follows are the
  string operations \<open>_adjustFontSize\<close> applies to them: the regular expression
  \<open>/^[\d\.]+(px|em)$/\<close>, \<open>substring\<close>, \<open>parseFloat\<close> and the conversion of a number to a
  string in \<open>fsNew + fsUnits\<close>.
\<close>

definition is_digit :: "char \<Rightarrow> bool" where
  "is_digit c = (48 \<le> (of_char c :: nat) \<and> (of_char c :: nat) \<le> 57)"

definition digit_val :: "char \<Rightarrow> nat" where
  "digit_val c = of_char c - 48"

definition digit_char :: "nat \<Rightarrow> char" where
  "digit_char n = char_of (48 + n)"

definition validFont_matches :: "string \<Rightarrow> bool" where
  \<comment> \<open>one or more digits or dots, then \<open>px\<close> or \<open>em\<close>, and nothing else\<close>
  "validFont_matches s =
     (2 < length s
      \<and> list_all (\<lambda>c. is_digit c \<or> c = CHR ''.'') (take (length s - 2) s)
      \<and> (drop (length s - 2) s = ''px'' \<or> drop (length s - 2) s = ''em''))"

definition search_validFont :: "string \<Rightarrow> int" where
  \<comment> \<open>\<open>s.search(validFont)\<close>: the pattern is anchored, so a match is at index 0\<close>
  "search_validFont s = (if validFont_matches s then 0 else - 1)"

definition substring :: "string \<Rightarrow> int \<Rightarrow> int \<Rightarrow> string" where
  \<comment> \<open>\<open>s.substring(a, b)\<close>: both indices clamped to the string, the smaller one first\<close>
  "substring s a b =
     (let n = int (length s);
          a' = max 0 (min a n);
          b' = max 0 (min b n);
          lo = nat (min a' b');
          hi = nat (max a' b')
      in take (hi - lo) (drop lo s))"

fun nat_of_digits :: "nat \<Rightarrow> string \<Rightarrow> nat" where
  "nat_of_digits acc [] = acc"
| "nat_of_digits acc (c # cs) = nat_of_digits (10 * acc + digit_val c) cs"

fun frac_of_digits :: "string \<Rightarrow> rat" where
  "frac_of_digits [] = 0"
| "frac_of_digits (c # cs) = (of_nat (digit_val c) + frac_of_digits cs) / 10"

definition parseFloat :: "string \<Rightarrow> jsnum" where
  \<comment> \<open>\<open>parseFloat\<close> on a string without sign, exponent or leading blanks, which is all
      the validation lets through: the longest prefix of the form digits, dot, digits;
      NaN when neither part has a digit\<close>
  "parseFloat s =
     (let ip = takeWhile is_digit s;
          rest = dropWhile is_digit s;
          fp = (case rest of [] \<Rightarrow> [] | c # cs \<Rightarrow> if c = CHR ''.'' then takeWhile is_digit cs else [])
      in if ip = [] \<and> fp = [] then NaN
         else Num (of_nat (nat_of_digits 0 ip) + frac_of_digits fp))"

function digits_of_nat :: "nat \<Rightarrow> string" where
  "digits_of_nat n =
     (if n < 10 then [digit_char n] else digits_of_nat (n div 10) @ [digit_char (n mod 10)])"
  by pat_completeness auto
termination
  by (relation "measure (\<lambda>n. n)") auto

declare digits_of_nat.simps [simp del]

fun frac_digits :: "nat \<Rightarrow> rat \<Rightarrow> string" where
  "frac_digits 0 x = []"
| "frac_digits (Suc k) x =
     (if x = 0 then []
      else (let d = nat \<lfloor>x * 10\<rfloor> in digit_char d # frac_digits k (x * 10 - of_nat d)))"

definition max_frac_digits :: nat where
  "max_frac_digits = 20"

definition string_of_nonneg :: "rat \<Rightarrow> string" where
  "string_of_nonneg r =
     (let ip = nat \<lfloor>r\<rfloor>;
          fp = frac_digits max_frac_digits (r - of_nat ip)
      in digits_of_nat ip @ (if fp = [] then [] else CHR ''.'' # fp))"


fun js_to_string :: "jsnum \<Rightarrow> string" where
  \<comment> \<open>the decimal digits of the number; a double has finitely many, the model stops after
      \<open>max_frac_digits\<close> fractional ones; exponent notation is not modelled\<close>
  "js_to_string (Num r) =
     (if r < 0 then CHR ''-'' # string_of_nonneg (- r) else string_of_nonneg r)"
| "js_to_string PosInf = ''Infinity''"
| "js_to_string NegInf = ''-Infinity''"
| "js_to_string NaN = ''NaN''"

section \<open>The page: style rules and the current editor\<close>

text \<open>
  Modelled from the spec: the document and the browser's cascade are not part of the
  module. A \<open>style\<close> element is its id and the two declarations the module writes into
  it; the computed font size and line height of \<open>.CodeMirror\<close> are those of the dynamic
  rule when one is present (the last one, were there several) and the page's own values
  otherwise. \<open>EditorManager.getCurrentFullEditor()\<close> is the field \<open>full_editor\<close>.
\<close>

record style_elem =
  elem_id :: string
  font_size_rule :: string
  line_height_rule :: string

record page =
  head_styles :: "style_elem list"
  base_font_size :: string
  base_line_height :: string
  full_editor :: editor

definition DYNAMIC_FONT_STYLE_ID :: string where
  "DYNAMIC_FONT_STYLE_ID = ''codemirror-dynamic-fonts''"

definition style_html :: "style_elem \<Rightarrow> string" where
  "style_html r =
     ''.CodeMirror {'' @ ''font-size: '' @ font_size_rule r @ '' !important;'' @
     ''line-height: '' @ line_height_rule r @ '' !important;}''"

definition dynamic_rules :: "page \<Rightarrow> style_elem list" where
  "dynamic_rules w = filter (\<lambda>r. elem_id r = DYNAMIC_FONT_STYLE_ID) (head_styles w)"

definition css_font_size :: "page \<Rightarrow> string" where
  "css_font_size w =
     (case rev (dynamic_rules w) of [] \<Rightarrow> base_font_size w | r # rs \<Rightarrow> font_size_rule r)"

definition css_line_height :: "page \<Rightarrow> string" where
  "css_line_height w =
     (case rev (dynamic_rules w) of [] \<Rightarrow> base_line_height w | r # rs \<Rightarrow> line_height_rule r)"

fun remove_by_id :: "string \<Rightarrow> style_elem list \<Rightarrow> style_elem list" where
  \<comment> \<open>\<open>$("#" + id).remove()\<close>: an id selector finds the first element with the id\<close>
  "remove_by_id i [] = []"
| "remove_by_id i (r # rs) = (if elem_id r = i then rs else r # remove_by_id i rs)"

record scroll_pos =
  pos_x :: jsnum
  pos_y :: jsnum

definition getScrollPos :: "editor \<Rightarrow> scroll_pos" where
  "getScrollPos e = \<lparr>pos_x = scroll_left e, pos_y = scroll_top e\<rparr>"

section \<open>The font size\<close>

definition removeDynamicFontSize :: "bool \<Rightarrow> page \<Rightarrow> page" where
  "removeDynamicFontSize refresh w =
     (let w' = w\<lparr>head_styles := remove_by_id DYNAMIC_FONT_STYLE_ID (head_styles w)\<rparr>
      in if refresh then w'\<lparr>full_editor := refreshAll (full_editor w')\<rparr> else w')"

definition adjustFontSize :: "jsnum \<Rightarrow> page \<Rightarrow> page" where
  "adjustFontSize direction w =
     (let fsStyle = css_font_size w;
          lhStyle = css_line_height w
      in if search_validFont fsStyle = - 1 \<or> search_validFont lhStyle = - 1 then w
         else
          (let fsUnits = substring fsStyle (int (length fsStyle) - 2) (int (length fsStyle));
               lhUnits = substring lhStyle (int (length lhStyle) - 2) (int (length lhStyle));
               fsOld = parseFloat (substring fsStyle 0 (int (length fsStyle) - 2));
               lhOld = parseFloat (substring lhStyle 0 (int (length lhStyle) - 2));
               fsDelta0 = (if fsUnits = ''px'' then Num 1 else Num (1 / 10));
               lhDelta0 = (if lhUnits = ''px'' then Num 1 else Num (1 / 10));
               fsDelta = (if js_eq direction (Num (- 1)) then js_mul fsDelta0 (Num (- 1)) else fsDelta0);
               lhDelta = (if js_eq direction (Num (- 1)) then js_mul lhDelta0 (Num (- 1)) else lhDelta0);
               fsNew = js_add fsOld fsDelta;
               lhNew = js_add lhOld lhDelta;
               fsStr = js_to_string fsNew @ fsUnits;
               lhStr = js_to_string lhNew @ lhUnits
           in if js_eq direction (Num (- 1)) \<and>
                 ((fsUnits = ''px'' \<and> js_le fsNew (Num 1)) \<or>
                  (fsUnits = ''em'' \<and> js_le fsNew (Num (1 / 10)))) then w
              else
               (let w1 = removeDynamicFontSize False w;
                    style = \<lparr>elem_id = DYNAMIC_FONT_STYLE_ID, font_size_rule = fsStr,
                             line_height_rule = lhStr\<rparr>;
                    w2 = w1\<lparr>head_styles := head_styles w1 @ [style]\<rparr>;
                    editor' = refreshAll (full_editor w2)
                in if fsUnits = ''px'' then
                     (let scrollPos = getScrollPos editor';
                          scrollDeltaX = js_round (js_div (pos_x scrollPos) lhOld);
                          scrollDeltaY = js_round (js_div (pos_y scrollPos) lhOld)
                      in w2\<lparr>full_editor :=
                           setScrollPos (js_add (pos_x scrollPos) (js_mul scrollDeltaX direction))
                             (js_add (pos_y scrollPos) (js_mul scrollDeltaY direction)) editor'\<rparr>)
                   else w2\<lparr>full_editor := editor'\<rparr>)))"

definition handleIncreaseFontSize :: "page \<Rightarrow> page" where
  "handleIncreaseFontSize w = adjustFontSize (Num 1) w"

definition handleDecreaseFontSize :: "page \<Rightarrow> page" where
  "handleDecreaseFontSize w = adjustFontSize (Num (- 1)) w"

definition handleRestoreFontSize :: "page \<Rightarrow> page" where
  "handleRestoreFontSize w = removeDynamicFontSize True w"

definition handleScrollLineUp :: "page \<Rightarrow> page" where
  "handleScrollLineUp w = w\<lparr>full_editor := scrollLine (Num (- 1)) (full_editor w)\<rparr>"

definition handleScrollLineDown :: "page \<Rightarrow> page" where
  "handleScrollLineDown w = w\<lparr>full_editor := scrollLine (Num 1) (full_editor w)\<rparr>"

text \<open>The five commands the module registers, and a session of them.\<close>

datatype command =
    VIEW_INCREASE_FONT_SIZE
  | VIEW_DECREASE_FONT_SIZE
  | VIEW_RESTORE_FONT_SIZE
  | VIEW_SCROLL_LINE_UP
  | VIEW_SCROLL_LINE_DOWN

fun execute :: "command \<Rightarrow> page \<Rightarrow> page" where
  "execute VIEW_INCREASE_FONT_SIZE w = handleIncreaseFontSize w"
| "execute VIEW_DECREASE_FONT_SIZE w = handleDecreaseFontSize w"
| "execute VIEW_RESTORE_FONT_SIZE w = handleRestoreFontSize w"
| "execute VIEW_SCROLL_LINE_UP w = handleScrollLineUp w"
| "execute VIEW_SCROLL_LINE_DOWN w = handleScrollLineDown w"

definition executeAll :: "command list \<Rightarrow> page \<Rightarrow> page" where
  "executeAll cs w = foldl (\<lambda>w' c. execute c w') w cs"

section \<open>The values \<open>_adjustFontSize\<close> computes\<close>

text \<open>
  The local variables of \<open>_adjustFontSize\<close> as functions of the direction and the page,
  for use in the statements below.
\<close>

definition unitsOf :: "string \<Rightarrow> string" where
  "unitsOf style = substring style (int (length style) - 2) (int (length style))"

definition numberOf :: "string \<Rightarrow> jsnum" where
  "numberOf style = parseFloat (substring style 0 (int (length style) - 2))"

definition deltaOf :: "jsnum \<Rightarrow> string \<Rightarrow> jsnum" where
  "deltaOf direction units =
     (let delta = (if units = ''px'' then Num 1 else Num (1 / 10))
      in if js_eq direction (Num (- 1)) then js_mul delta (Num (- 1)) else delta)"

definition fsNewOf :: "jsnum \<Rightarrow> page \<Rightarrow> jsnum" where
  "fsNewOf direction w =
     js_add (numberOf (css_font_size w)) (deltaOf direction (unitsOf (css_font_size w)))"

definition lhNewOf :: "jsnum \<Rightarrow> page \<Rightarrow> jsnum" where
  "lhNewOf direction w =
     js_add (numberOf (css_line_height w)) (deltaOf direction (unitsOf (css_line_height w)))"

definition tooSmall :: "jsnum \<Rightarrow> page \<Rightarrow> bool" where
  "tooSmall direction w =
     (js_eq direction (Num (- 1)) \<and>
      ((unitsOf (css_font_size w) = ''px'' \<and> js_le (fsNewOf direction w) (Num 1)) \<or>
       (unitsOf (css_font_size w) = ''em'' \<and> js_le (fsNewOf direction w) (Num (1 / 10)))))"

definition newRule :: "jsnum \<Rightarrow> page \<Rightarrow> style_elem" where
  "newRule direction w =
     \<lparr>elem_id = DYNAMIC_FONT_STYLE_ID,
      font_size_rule = js_to_string (fsNewOf direction w) @ unitsOf (css_font_size w),
      line_height_rule = js_to_string (lhNewOf direction w) @ unitsOf (css_line_height w)\<rparr>"

definition scrollCorrection :: "jsnum \<Rightarrow> jsnum \<Rightarrow> jsnum \<Rightarrow> jsnum" where
  "scrollCorrection direction lhOld offset =
     js_add offset (js_mul (js_round (js_div offset lhOld)) direction)"

text \<open>
  The scroll correction in the words of the specification: the offset rescaled from
  the old line height to the new one, then moved by one line-height step.
\<close>

definition rescaleThenNudge :: "jsnum \<Rightarrow> jsnum \<Rightarrow> jsnum \<Rightarrow> jsnum" where
  "rescaleThenNudge lhOld lhDelta offset =
     js_add (js_div (js_mul offset (js_add lhOld lhDelta)) lhOld) lhDelta"

section \<open>Example states\<close>

text \<open>
  An editor showing lines 5 to 14: text height 20, scrolled to 120, 200 high, the caret
  on line 4, no selection, no inline widget, the line space 4 below the top.
\<close>

definition ex_editor :: editor where
  "ex_editor =
     \<lparr>scroll_left = Num 3, scroll_top = Num 120, client_height = Num 200,
      text_height = Num 20, cursor = \<lparr>line = Num 4, ch = Num 7\<rparr>, has_selection = False,
      line_space_offset_top = Num 4, inline_widgets = [], calls = []\<rparr>"



text \<open>A page with a 12px font on 15px lines and no dynamic rule, showing \<open>ex_editor\<close>.\<close>

definition ex_page :: page where
  "ex_page =
     \<lparr>head_styles = [], base_font_size = ''12px'', base_line_height = ''15px'',
      full_editor = ex_editor\<rparr>"

abbreviation final_range :: "jsnum \<Rightarrow> editor \<Rightarrow> lines_in_view" where
  "final_range d e \<equiv> linesInView (widgets_range d e)"

abbreviation scroll_call :: "jsnum \<Rightarrow> editor \<Rightarrow> editor_call" where
  "scroll_call d e \<equiv>
     SetScrollPos (scroll_left e) (js_add (clampedScrollTop d e) (js_mul (text_height e) d))"

section \<open>Properties\<close>

subsection \<open>The visible lines\<close>



subsection \<open>Numbers\<close>

lemma js_lt_asym: "js_lt x y \<Longrightarrow> \<not> js_lt y x"
  by (cases x; cases y) auto

lemma js_eq_not_lt: "js_eq x y \<Longrightarrow> \<not> js_lt x y \<and> \<not> js_lt y x"
  by (cases x; cases y) (auto simp: js_eq_def)

subsection \<open>The inline widgets\<close>

lemma getLinesInView_widgets [simp]:
  "getLinesInView (e\<lparr>inline_widgets := ws\<rparr>) s v = getLinesInView e s v"
  by (simp add: getLinesInView_def getTextHeight_def)

lemma widget_step_widgets [simp]:
  "widget_step (e\<lparr>inline_widgets := ws\<rparr>) h st iw = widget_step e h st iw"
  by (simp add: widget_step_def getInlineWidgetLineNumber_def Let_def)

lemma widget_step_widgets_fun [simp]:
  "widget_step (e\<lparr>inline_widgets := ws\<rparr>) = widget_step e"
  by (rule ext)+ simp

lemma clampedScrollTop_widgets [simp]:
  "clampedScrollTop d (e\<lparr>inline_widgets := ws\<rparr>) = clampedScrollTop d e"
  by (simp add: clampedScrollTop_def Let_def)

lemma initial_range_widgets [simp]:
  "initial_range d (e\<lparr>inline_widgets := ws\<rparr>) = initial_range d e"
  by (simp add: initial_range_def clampedScrollTop_def Let_def)



subsection \<open>The scroll position\<close>

text \<open>
  Claim C3, as the specification states it: the vertical offset set at the end is the
  scroll top before the clamp plus \<open>textHeight * direction\<close>. With the scroll top 0 above
  a line space at 4, scrolling down by a text height of 20 sets 24 and not 20.
\<close>

theorem scrollLine_counter_clamp:
  "scroll_top (scrollLine (Num 1) (ex_editor\<lparr>scroll_top := Num 0\<rparr>)) = Num 24
   \<and> js_add (scroll_top (ex_editor\<lparr>scroll_top := Num 0\<rparr>))
         (js_mul (text_height (ex_editor\<lparr>scroll_top := Num 0\<rparr>)) (Num 1)) = Num 20
   \<and> scroll_top (scrollLine (Num 1) (ex_editor\<lparr>scroll_top := Num 0\<rparr>)) \<noteq>
       js_add (scroll_top (ex_editor\<lparr>scroll_top := Num 0\<rparr>))
         (js_mul (text_height (ex_editor\<lparr>scroll_top := Num 0\<rparr>)) (Num 1))"
  by (simp add: scrollLine_def setScrollPos_def Let_def clampedScrollTop_def getTextHeight_def
        ex_editor_def js_gt_def)

text \<open>
  Claim C3, amended. The last call of \<open>_scrollLine\<close> sets the scroll position; the
  horizontal offset is the one read at the start, and the vertical offset is the clamped
  scroll top plus \<open>textHeight * direction\<close>, where the clamped scroll top is the offset of
  the line space when the scroll top is above it and the direction is down, and the
  scroll top itself otherwise. The inline widgets do not enter.
\<close>

theorem scrollLine_final_scroll:
  "calls (scrollLine d e) \<noteq> []
   \<and> last (calls (scrollLine d e)) =
       SetScrollPos (scroll_left e) (js_add (clampedScrollTop d e) (js_mul (text_height e) d))
   \<and> scroll_left (scrollLine d e) = scroll_left e
   \<and> scroll_top (scrollLine d e) = js_add (clampedScrollTop d e) (js_mul (text_height e) d)
   \<and> clampedScrollTop d e =
       (if js_lt (scroll_top e) (line_space_offset_top e) \<and> js_gt d (Num 0)
        then line_space_offset_top e else scroll_top e)"
  by (simp add: scrollLine_def setScrollPos_def Let_def clampedScrollTop_def getTextHeight_def)

subsection \<open>The cursor\<close>

text \<open>
  Claim C4. \<open>_scrollLine\<close> touches the cursor only without a selection: scrolling down
  with the cursor line above the first visible line sets it to \<open>first + 1\<close>, scrolling up
  with the cursor line below the last visible line sets it to \<open>last - 1\<close>, both with the
  character offset kept; with the cursor line equal to \<open>first\<close> (down) or \<open>last\<close> (up)
  the native \<open>moveV(direction, "line")\<close> is called; in every other case, and always
  with a selection, no cursor call is made and the cursor is as before.
\<close>

theorem scrollLine_cursor:
  "(has_selection e \<longrightarrow>
      cursor (scrollLine d e) = cursor e \<and> calls (scrollLine d e) = calls e @ [scroll_call d e])
   \<and> (\<not> has_selection e \<and> js_gt d (Num 0) \<and> js_lt (line (cursor e)) (first (final_range d e)) \<longrightarrow>
      cursor (scrollLine d e) = \<lparr>line = js_add (first (final_range d e)) (Num 1), ch = ch (cursor e)\<rparr> \<and>
      calls (scrollLine d e) = calls e @ [SetCursorPos (cursor (scrollLine d e)), scroll_call d e])
   \<and> (\<not> has_selection e \<and> js_lt d (Num 0) \<and> js_gt (line (cursor e)) (lastLine (final_range d e)) \<longrightarrow>
      cursor (scrollLine d e) = \<lparr>line = js_sub (lastLine (final_range d e)) (Num 1), ch = ch (cursor e)\<rparr> \<and>
      calls (scrollLine d e) = calls e @ [SetCursorPos (cursor (scrollLine d e)), scroll_call d e])
   \<and> (\<not> has_selection e \<and>
      (js_gt d (Num 0) \<and> js_eq (line (cursor e)) (first (final_range d e)) \<or>
       js_lt d (Num 0) \<and> js_eq (line (cursor e)) (lastLine (final_range d e))) \<longrightarrow>
      calls (scrollLine d e) = calls e @ [MoveV d ''line'', scroll_call d e])
   \<and> (\<not> has_selection e \<and>
      \<not> (js_gt d (Num 0) \<and> js_lt (line (cursor e)) (first (final_range d e))) \<and>
      \<not> (js_lt d (Num 0) \<and> js_gt (line (cursor e)) (lastLine (final_range d e))) \<and>
      \<not> (js_gt d (Num 0) \<and> js_eq (line (cursor e)) (first (final_range d e)) \<or>
         js_lt d (Num 0) \<and> js_eq (line (cursor e)) (lastLine (final_range d e))) \<longrightarrow>
      cursor (scrollLine d e) = cursor e \<and> calls (scrollLine d e) = calls e @ [scroll_call d e])"
proof -
  have sel: "has_selection e \<Longrightarrow> adjustCursor d (final_range d e) e = e"
    by (simp add: adjustCursor_def hasSelection_def Let_def)
  have down: "\<not> has_selection e \<Longrightarrow> js_gt d (Num 0) \<Longrightarrow>
      js_lt (line (cursor e)) (first (final_range d e)) \<Longrightarrow>
      adjustCursor d (final_range d e) e =
        setCursorPos \<lparr>line = js_add (first (final_range d e)) (Num 1), ch = ch (cursor e)\<rparr> e"
    by (simp add: adjustCursor_def hasSelection_def getCursorPos_def Let_def)
  have up: "\<not> has_selection e \<Longrightarrow> js_lt d (Num 0) \<Longrightarrow>
      js_gt (line (cursor e)) (lastLine (final_range d e)) \<Longrightarrow>
      adjustCursor d (final_range d e) e =
        setCursorPos \<lparr>line = js_sub (lastLine (final_range d e)) (Num 1), ch = ch (cursor e)\<rparr> e"
    using js_lt_asym [of d "Num 0"]
    by (simp add: adjustCursor_def hasSelection_def getCursorPos_def Let_def js_gt_def)
  have edge: "\<not> has_selection e \<Longrightarrow>
      (js_gt d (Num 0) \<and> js_eq (line (cursor e)) (first (final_range d e)) \<or>
       js_lt d (Num 0) \<and> js_eq (line (cursor e)) (lastLine (final_range d e))) \<Longrightarrow>
      adjustCursor d (final_range d e) e = moveV d ''line'' e"
    using js_lt_asym [of d "Num 0"] js_lt_asym [of "Num 0" d]
      js_eq_not_lt [of "line (cursor e)" "first (final_range d e)"]
      js_eq_not_lt [of "line (cursor e)" "lastLine (final_range d e)"]
    by (auto simp add: adjustCursor_def hasSelection_def getCursorPos_def Let_def js_gt_def)
  have none: "\<not> has_selection e \<Longrightarrow>
      \<not> (js_gt d (Num 0) \<and> js_lt (line (cursor e)) (first (final_range d e))) \<Longrightarrow>
      \<not> (js_lt d (Num 0) \<and> js_gt (line (cursor e)) (lastLine (final_range d e))) \<Longrightarrow>
      \<not> (js_gt d (Num 0) \<and> js_eq (line (cursor e)) (first (final_range d e)) \<or>
         js_lt d (Num 0) \<and> js_eq (line (cursor e)) (lastLine (final_range d e))) \<Longrightarrow>
      adjustCursor d (final_range d e) e = e"
    by (auto simp add: adjustCursor_def hasSelection_def getCursorPos_def Let_def)
  have sl: "scrollLine d e =
      setScrollPos (scroll_left e) (js_add (clampedScrollTop d e) (js_mul (text_height e) d))
        (adjustCursor d (final_range d e) e)"
    by (simp add: scrollLine_def Let_def getTextHeight_def)
  show ?thesis
    unfolding sl
    by (intro conjI impI; (elim conjE)?)
       (simp_all add: sel down up edge none setScrollPos_def setCursorPos_def moveV_def)
qed

theorem scrollLine_cursor_witness:
  "has_selection (ex_editor\<lparr>has_selection := True\<rparr>)
   \<and> cursor (scrollLine (Num 1) (ex_editor\<lparr>has_selection := True\<rparr>)) = \<lparr>line = Num 4, ch = Num 7\<rparr>
   \<and> calls (scrollLine (Num 1) (ex_editor\<lparr>has_selection := True\<rparr>)) = [SetScrollPos (Num 3) (Num 140)]
   \<and> \<not> has_selection ex_editor \<and> js_gt (Num 1) (Num 0)
   \<and> js_lt (line (cursor ex_editor)) (first (final_range (Num 1) ex_editor))
   \<and> final_range (Num 1) ex_editor = \<lparr>first = Num 5, lastLine = Num 14\<rparr>
   \<and> cursor (scrollLine (Num 1) ex_editor) = \<lparr>line = Num 6, ch = Num 7\<rparr>
   \<and> calls (scrollLine (Num 1) ex_editor) =
       [SetCursorPos \<lparr>line = Num 6, ch = Num 7\<rparr>, SetScrollPos (Num 3) (Num 140)]
   \<and> js_lt (Num (- 1)) (Num 0)
   \<and> js_gt (line (cursor (ex_editor\<lparr>cursor := \<lparr>line = Num 20, ch = Num 7\<rparr>\<rparr>)))
        (lastLine (final_range (Num (- 1)) (ex_editor\<lparr>cursor := \<lparr>line = Num 20, ch = Num 7\<rparr>\<rparr>)))
   \<and> calls (scrollLine (Num (- 1)) (ex_editor\<lparr>cursor := \<lparr>line = Num 20, ch = Num 7\<rparr>\<rparr>)) =
       [SetCursorPos \<lparr>line = Num 13, ch = Num 7\<rparr>, SetScrollPos (Num 3) (Num 100)]
   \<and> js_eq (line (cursor (ex_editor\<lparr>cursor := \<lparr>line = Num 5, ch = Num 7\<rparr>\<rparr>)))
        (first (final_range (Num 1) (ex_editor\<lparr>cursor := \<lparr>line = Num 5, ch = Num 7\<rparr>\<rparr>)))
   \<and> calls (scrollLine (Num 1) (ex_editor\<lparr>cursor := \<lparr>line = Num 5, ch = Num 7\<rparr>\<rparr>)) =
       [MoveV (Num 1) ''line'', SetScrollPos (Num 3) (Num 140)]
   \<and> \<not> js_lt (line (cursor (ex_editor\<lparr>cursor := \<lparr>line = Num 8, ch = Num 7\<rparr>\<rparr>)))
        (first (final_range (Num 1) (ex_editor\<lparr>cursor := \<lparr>line = Num 8, ch = Num 7\<rparr>\<rparr>)))
   \<and> \<not> js_eq (line (cursor (ex_editor\<lparr>cursor := \<lparr>line = Num 8, ch = Num 7\<rparr>\<rparr>)))
        (first (final_range (Num 1) (ex_editor\<lparr>cursor := \<lparr>line = Num 8, ch = Num 7\<rparr>\<rparr>)))
   \<and> cursor (scrollLine (Num 1) (ex_editor\<lparr>cursor := \<lparr>line = Num 8, ch = Num 7\<rparr>\<rparr>)) =
       \<lparr>line = Num 8, ch = Num 7\<rparr>
   \<and> calls (scrollLine (Num 1) (ex_editor\<lparr>cursor := \<lparr>line = Num 8, ch = Num 7\<rparr>\<rparr>)) =
       [SetScrollPos (Num 3) (Num 140)]"
  using
    scrollLine_cursor [of "ex_editor\<lparr>has_selection := True\<rparr>" "Num 1"]
    scrollLine_cursor [of ex_editor "Num 1"]
    scrollLine_cursor [of "ex_editor\<lparr>cursor := \<lparr>line = Num 20, ch = Num 7\<rparr>\<rparr>" "Num (- 1)"]
    scrollLine_cursor [of "ex_editor\<lparr>cursor := \<lparr>line = Num 5, ch = Num 7\<rparr>\<rparr>" "Num 1"]
    scrollLine_cursor [of "ex_editor\<lparr>cursor := \<lparr>line = Num 8, ch = Num 7\<rparr>\<rparr>" "Num 1"]
  by (simp add: ex_editor_def widgets_range_def initial_range_def getInlineWidgets_def
        clampedScrollTop_def getLinesInView_def getTextHeight_def js_sub_def js_gt_def
        js_eq_def Let_def)

subsection \<open>Digits, printing and parsing\<close>




























subsection \<open>The font size\<close>

lemma refreshAll_reads [simp]:
  "scroll_left (refreshAll e) = scroll_left e"
  "scroll_top (refreshAll e) = scroll_top e"
  "cursor (refreshAll e) = cursor e"
  "calls (refreshAll e) = calls e @ [RefreshAll]"
  by (simp_all add: refreshAll_def)

lemma adjustFontSize_unfold:
  "adjustFontSize d w =
     (if \<not> validFont_matches (css_font_size w) \<or> \<not> validFont_matches (css_line_height w) then w
      else if tooSmall d w then w
      else w\<lparr>head_styles := remove_by_id DYNAMIC_FONT_STYLE_ID (head_styles w) @ [newRule d w],
             full_editor :=
               (if unitsOf (css_font_size w) = ''px'' then
                  setScrollPos
                    (scrollCorrection d (numberOf (css_line_height w)) (scroll_left (full_editor w)))
                    (scrollCorrection d (numberOf (css_line_height w)) (scroll_top (full_editor w)))
                    (refreshAll (full_editor w))
                else refreshAll (full_editor w))\<rparr>)"
  unfolding adjustFontSize_def tooSmall_def fsNewOf_def lhNewOf_def deltaOf_def unitsOf_def
    numberOf_def newRule_def removeDynamicFontSize_def scrollCorrection_def getScrollPos_def
    search_validFont_def Let_def
  by (cases "validFont_matches (css_font_size w)"; cases "validFont_matches (css_line_height w)";
      cases "js_eq d (Num (- 1))";
      cases "substring (css_font_size w) (int (length (css_font_size w)) - 2)
               (int (length (css_font_size w))) = ''px''";
      cases "substring (css_font_size w) (int (length (css_font_size w)) - 2)
               (int (length (css_font_size w))) = ''em''")
     simp_all

lemma style_html_newRule:
  "style_html (newRule d w) =
     ''.CodeMirror {font-size: '' @ js_to_string (fsNewOf d w) @ unitsOf (css_font_size w) @
     '' !important;line-height: '' @ js_to_string (lhNewOf d w) @ unitsOf (css_line_height w) @
     '' !important;}''"
  by (simp add: style_html_def newRule_def)

lemma valid_units:
  assumes "validFont_matches s"
  shows "unitsOf s = ''px'' \<or> unitsOf s = ''em''"
proof -
  from assms have len: "2 < length s"
    and u: "drop (length s - 2) s = ''px'' \<or> drop (length s - 2) s = ''em''"
    by (simp_all add: validFont_matches_def)
  from len have "unitsOf s = drop (length s - 2) s"
    by (simp add: unitsOf_def substring_def Let_def min_def max_def nat_diff_distrib)
  with u show ?thesis by simp
qed

lemma dynamic_rules_remove:
  "filter (\<lambda>r. elem_id r = i) (remove_by_id i rs) = tl (filter (\<lambda>r. elem_id r = i) rs)"
  by (induction rs) auto

lemma dynamic_rules_removed:
  "dynamic_rules (removeDynamicFontSize b w) = tl (dynamic_rules w)"
  by (simp add: dynamic_rules_def removeDynamicFontSize_def Let_def dynamic_rules_remove)

lemma dynamic_rules_adjust:
  "adjustFontSize d w = w \<or> dynamic_rules (adjustFontSize d w) = tl (dynamic_rules w) @ [newRule d w]"
  by (simp add: adjustFontSize_unfold dynamic_rules_def dynamic_rules_remove newRule_def)

lemma dynamic_rules_scroll [simp]:
  "dynamic_rules (w\<lparr>full_editor := e\<rparr>) = dynamic_rules w"
  by (simp add: dynamic_rules_def)

lemma execute_single:
  assumes "length (dynamic_rules w) \<le> 1"
  shows "length (dynamic_rules (execute c w)) \<le> 1"
proof (cases c)
  case VIEW_INCREASE_FONT_SIZE
  with assms dynamic_rules_adjust [of "Num 1" w] show ?thesis
    by (auto simp add: handleIncreaseFontSize_def)
next
  case VIEW_DECREASE_FONT_SIZE
  with assms dynamic_rules_adjust [of "Num (- 1)" w] show ?thesis
    by (auto simp add: handleDecreaseFontSize_def)
next
  case VIEW_RESTORE_FONT_SIZE
  with assms show ?thesis
    by (simp add: handleRestoreFontSize_def dynamic_rules_removed)
next
  case VIEW_SCROLL_LINE_UP
  with assms show ?thesis by (simp add: handleScrollLineUp_def)
next
  case VIEW_SCROLL_LINE_DOWN
  with assms show ?thesis by (simp add: handleScrollLineDown_def)
qed

lemma executeAll_single:
  "length (dynamic_rules w) \<le> 1 \<Longrightarrow> length (dynamic_rules (executeAll cs w)) \<le> 1"
proof (induction cs arbitrary: w)
  case Nil
  then show ?case by (simp add: executeAll_def)
next
  case (Cons c cs)
  from Cons.prems have "length (dynamic_rules (execute c w)) \<le> 1"
    by (rule execute_single)
  then have "length (dynamic_rules (executeAll cs (execute c w))) \<le> 1"
    by (rule Cons.IH)
  then show ?case by (simp add: executeAll_def)
qed

lemma short_tl: "length xs \<le> 1 \<Longrightarrow> tl xs = []"
  by (cases xs) auto

lemma base_adjust [simp]:
  "base_font_size (adjustFontSize d w) = base_font_size w"
  "base_line_height (adjustFontSize d w) = base_line_height w"
  by (simp_all add: adjustFontSize_unfold)

lemma base_execute [simp]:
  "base_font_size (execute c w) = base_font_size w"
  "base_line_height (execute c w) = base_line_height w"
  by (cases c; simp add: handleIncreaseFontSize_def handleDecreaseFontSize_def
        handleRestoreFontSize_def handleScrollLineUp_def handleScrollLineDown_def
        removeDynamicFontSize_def Let_def)+

lemma base_executeAll [simp]:
  "base_font_size (executeAll cs w) = base_font_size w"
  "base_line_height (executeAll cs w) = base_line_height w"
  unfolding executeAll_def
  by (induction cs arbitrary: w) simp_all

lemma remove_none:
  "filter (\<lambda>r. elem_id r = i) rs = [] \<Longrightarrow> remove_by_id i rs = rs"
  by (induction rs) (auto split: if_splits)
















subsection \<open>Claims about the font size\<close>

text \<open>
  Claim C5, as the specification states it: with pixel units the scroll offset is
  rescaled in proportion to the line height and then moved by one line-height step.
  On the example page (line height 15px, scroll top 120) one step up sets the scroll
  top to 128, which is the rescaled offset \<open>120 * 16 / 15\<close> itself; the further step of
  the specification would give 129. At scroll top 0 the offset does not move at all.
\<close>

theorem adjustFontSize_counter_nudge:
  "scroll_top (full_editor ex_page) = Num 120
   \<and> numberOf (css_line_height ex_page) = Num 15
   \<and> scroll_top (full_editor (adjustFontSize (Num 1) ex_page)) = Num 128
   \<and> js_div (js_mul (Num 120) (Num 16)) (Num 15) = Num 128
   \<and> rescaleThenNudge (Num 15) (Num 1) (Num 120) = Num 129
   \<and> scroll_top (full_editor (adjustFontSize (Num 1) ex_page)) \<noteq>
       rescaleThenNudge (Num 15) (Num 1) (Num 120)
   \<and> scroll_top (full_editor (adjustFontSize (Num 1)
         (ex_page\<lparr>full_editor := ex_editor\<lparr>scroll_top := Num 0\<rparr>\<rparr>))) = Num 0"
  by code_simp

text \<open>
  Claim C5, amended. When the font size and the line height are valid and the step is
  not refused: if the unit of the font size is \<open>px\<close>, the editor is refreshed and then
  its scroll position is set to \<open>x + round(x / lhOld) * direction\<close> and
  \<open>y + round(y / lhOld) * direction\<close>, each offset moving by one unit for every old line
  height it contains; if the unit is \<open>em\<close>, the editor is refreshed and no scroll
  position is set. The unit of the line height is not consulted. Here \<open>x\<close> and \<open>y\<close> are
  the scroll position read after the refresh, which in this model is the one before it.
\<close>

theorem adjustFontSize_scroll:
  assumes "validFont_matches (css_font_size w)" and "validFont_matches (css_line_height w)"
    and "\<not> tooSmall d w"
  shows "(unitsOf (css_font_size w) = ''px'' \<longrightarrow>
       full_editor (adjustFontSize d w) =
         setScrollPos
           (js_add (scroll_left (full_editor w))
              (js_mul (js_round (js_div (scroll_left (full_editor w)) (numberOf (css_line_height w)))) d))
           (js_add (scroll_top (full_editor w))
              (js_mul (js_round (js_div (scroll_top (full_editor w)) (numberOf (css_line_height w)))) d))
           (refreshAll (full_editor w)))
    \<and> (unitsOf (css_font_size w) \<noteq> ''px'' \<longrightarrow>
       unitsOf (css_font_size w) = ''em'' \<and>
       full_editor (adjustFontSize d w) = refreshAll (full_editor w) \<and>
       scroll_left (full_editor (adjustFontSize d w)) = scroll_left (full_editor w) \<and>
       scroll_top (full_editor (adjustFontSize d w)) = scroll_top (full_editor w) \<and>
       calls (full_editor (adjustFontSize d w)) = calls (full_editor w) @ [RefreshAll])"
  using assms valid_units [of "css_font_size w"]
  by (auto simp add: adjustFontSize_unfold scrollCorrection_def)

theorem adjustFontSize_scroll_witness:
  "validFont_matches (css_font_size ex_page) \<and> validFont_matches (css_line_height ex_page)
   \<and> \<not> tooSmall (Num 1) ex_page
   \<and> unitsOf (css_font_size ex_page) = ''px''
   \<and> full_editor (adjustFontSize (Num 1) ex_page) =
       ex_editor\<lparr>scroll_left := Num 3, scroll_top := Num 128,
         calls := [RefreshAll, SetScrollPos (Num 3) (Num 128)]\<rparr>
   \<and> validFont_matches (css_font_size (ex_page\<lparr>base_font_size := ''1.25em''\<rparr>))
   \<and> unitsOf (css_font_size (ex_page\<lparr>base_font_size := ''1.25em''\<rparr>)) \<noteq> ''px''
   \<and> \<not> tooSmall (Num (- 1)) (ex_page\<lparr>base_font_size := ''1.25em''\<rparr>)
   \<and> full_editor (adjustFontSize (Num (- 1)) (ex_page\<lparr>base_font_size := ''1.25em''\<rparr>)) =
       ex_editor\<lparr>calls := [RefreshAll]\<rparr>"
proof -
  have h: "validFont_matches (css_font_size ex_page)" "validFont_matches (css_line_height ex_page)"
    "\<not> tooSmall (Num 1) ex_page" "unitsOf (css_font_size ex_page) = ''px''"
    by code_simp+
  have k: "validFont_matches (css_font_size (ex_page\<lparr>base_font_size := ''1.25em''\<rparr>))"
    "validFont_matches (css_line_height (ex_page\<lparr>base_font_size := ''1.25em''\<rparr>))"
    "\<not> tooSmall (Num (- 1)) (ex_page\<lparr>base_font_size := ''1.25em''\<rparr>)"
    "unitsOf (css_font_size (ex_page\<lparr>base_font_size := ''1.25em''\<rparr>)) \<noteq> ''px''"
    by code_simp+
  have v: "setScrollPos
       (js_add (scroll_left (full_editor ex_page))
          (js_mul (js_round (js_div (scroll_left (full_editor ex_page))
             (numberOf (css_line_height ex_page)))) (Num 1)))
       (js_add (scroll_top (full_editor ex_page))
          (js_mul (js_round (js_div (scroll_top (full_editor ex_page))
             (numberOf (css_line_height ex_page)))) (Num 1)))
       (refreshAll (full_editor ex_page)) =
     ex_editor\<lparr>scroll_left := Num 3, scroll_top := Num 128,
       calls := [RefreshAll, SetScrollPos (Num 3) (Num 128)]\<rparr>"
    "refreshAll (full_editor (ex_page\<lparr>base_font_size := ''1.25em''\<rparr>)) =
     ex_editor\<lparr>calls := [RefreshAll]\<rparr>"
    by code_simp+
  from adjustFontSize_scroll [OF h(1,2,3)] adjustFontSize_scroll [OF k(1,2,3)] h k v
  show ?thesis by simp
qed




text \<open>
  Claim C7. In a run of \<open>adjustFontSize(-1)\<close> calls, a call whose decremented size is
  at most 1 (pixels) or at most 0.1 (em) returns the page as it found it: the dynamic
  rule is neither removed nor replaced, the editor is not refreshed and its scroll
  position is not set. Every other call either changes nothing or installs exactly the
  rule whose font size is the decremented size, which is then above the threshold.
\<close>

theorem decrease_clamp:
  "(let w' = (handleDecreaseFontSize ^^ n) w in
     ((unitsOf (css_font_size w') = ''px'' \<and> js_le (fsNewOf (Num (- 1)) w') (Num 1)) \<or>
      (unitsOf (css_font_size w') = ''em'' \<and> js_le (fsNewOf (Num (- 1)) w') (Num (1 / 10)))
        \<longrightarrow> handleDecreaseFontSize w' = w')
     \<and> (handleDecreaseFontSize w' = w' \<or>
        head_styles (handleDecreaseFontSize w') =
          remove_by_id DYNAMIC_FONT_STYLE_ID (head_styles w') @
          [\<lparr>elem_id = DYNAMIC_FONT_STYLE_ID,
            font_size_rule = js_to_string (fsNewOf (Num (- 1)) w') @ unitsOf (css_font_size w'),
            line_height_rule = js_to_string (lhNewOf (Num (- 1)) w') @ unitsOf (css_line_height w')\<rparr>]
        \<and> \<not> (unitsOf (css_font_size w') = ''px'' \<and> js_le (fsNewOf (Num (- 1)) w') (Num 1))
        \<and> \<not> (unitsOf (css_font_size w') = ''em'' \<and> js_le (fsNewOf (Num (- 1)) w') (Num (1 / 10)))))"
  by (simp add: Let_def handleDecreaseFontSize_def adjustFontSize_unfold tooSmall_def js_eq_def
        newRule_def)

theorem decrease_clamp_witness:
  "unitsOf (css_font_size ((handleDecreaseFontSize ^^ 1) (ex_page\<lparr>base_font_size := ''3px''\<rparr>))) = ''px''
   \<and> css_font_size ((handleDecreaseFontSize ^^ 1) (ex_page\<lparr>base_font_size := ''3px''\<rparr>)) = ''2px''
   \<and> js_le (fsNewOf (Num (- 1))
         ((handleDecreaseFontSize ^^ 1) (ex_page\<lparr>base_font_size := ''3px''\<rparr>))) (Num 1)
   \<and> handleDecreaseFontSize ((handleDecreaseFontSize ^^ 1) (ex_page\<lparr>base_font_size := ''3px''\<rparr>))
       = (handleDecreaseFontSize ^^ 1) (ex_page\<lparr>base_font_size := ''3px''\<rparr>)
   \<and> head_styles ((handleDecreaseFontSize ^^ 1) (ex_page\<lparr>base_font_size := ''3px''\<rparr>)) =
       [\<lparr>elem_id = DYNAMIC_FONT_STYLE_ID, font_size_rule = ''2px'', line_height_rule = ''14px''\<rparr>]"
proof -
  have h: "unitsOf (css_font_size ((handleDecreaseFontSize ^^ 1) (ex_page\<lparr>base_font_size := ''3px''\<rparr>))) = ''px''"
    "css_font_size ((handleDecreaseFontSize ^^ 1) (ex_page\<lparr>base_font_size := ''3px''\<rparr>)) = ''2px''"
    "js_le (fsNewOf (Num (- 1))
       ((handleDecreaseFontSize ^^ 1) (ex_page\<lparr>base_font_size := ''3px''\<rparr>))) (Num 1)"
    "head_styles ((handleDecreaseFontSize ^^ 1) (ex_page\<lparr>base_font_size := ''3px''\<rparr>)) =
       [\<lparr>elem_id = DYNAMIC_FONT_STYLE_ID, font_size_rule = ''2px'', line_height_rule = ''14px''\<rparr>]"
    by code_simp+
  from decrease_clamp [of 1 "ex_page\<lparr>base_font_size := ''3px''\<rparr>"] h
  show ?thesis by (simp add: Let_def)
qed

text \<open>
  Claim C8. If the computed font size or the computed line height does not match
  \<open>/^[\d\.]+(px|em)$/\<close>, as \<open>50%\<close> does not, then \<open>_adjustFontSize\<close> returns the page as
  it found it, whatever the direction: no rule is removed or installed, the editor is
  not refreshed and its scroll position is not set.
\<close>

theorem adjustFontSize_unsupported_units:
  "\<not> validFont_matches (css_font_size w) \<or> \<not> validFont_matches (css_line_height w) \<Longrightarrow>
   adjustFontSize d w = w"
  by (auto simp add: adjustFontSize_unfold)

theorem adjustFontSize_unsupported_units_witness:
  "\<not> validFont_matches (css_font_size (ex_page\<lparr>base_font_size := ''50%''\<rparr>))
   \<and> adjustFontSize (Num 1) (ex_page\<lparr>base_font_size := ''50%''\<rparr>) =
       ex_page\<lparr>base_font_size := ''50%''\<rparr>
   \<and> \<not> validFont_matches (css_line_height (ex_page\<lparr>base_line_height := ''normal''\<rparr>))
   \<and> adjustFontSize (Num (- 1)) (ex_page\<lparr>base_line_height := ''normal''\<rparr>) =
       ex_page\<lparr>base_line_height := ''normal''\<rparr>"
proof -
  have h: "\<not> validFont_matches (css_font_size (ex_page\<lparr>base_font_size := ''50%''\<rparr>))"
    "\<not> validFont_matches (css_line_height (ex_page\<lparr>base_line_height := ''normal''\<rparr>))"
    by code_simp+
  from adjustFontSize_unsupported_units [of "ex_page\<lparr>base_font_size := ''50%''\<rparr>" "Num 1"]
    adjustFontSize_unsupported_units [of "ex_page\<lparr>base_line_height := ''normal''\<rparr>" "Num (- 1)"] h
  show ?thesis by simp
qed

text \<open>
  Claim C9. A page with at most one style element of id \<open>codemirror-dynamic-fonts\<close>
  has at most one after any sequence of the five commands. The removal leaves none;
  a font-size step that changes the page leaves exactly the rule it installs; restoring
  leaves none.
\<close>

theorem single_dynamic_rule:
  assumes "length (dynamic_rules w) \<le> 1"
  shows "length (dynamic_rules (executeAll cs w)) \<le> 1
    \<and> dynamic_rules (handleRestoreFontSize w) = []
    \<and> dynamic_rules (removeDynamicFontSize False w) = []
    \<and> (adjustFontSize d w = w \<or> dynamic_rules (adjustFontSize d w) = [newRule d w])"
proof -
  from assms have t: "tl (dynamic_rules w) = []" by (rule short_tl)
  from assms have "length (dynamic_rules (executeAll cs w)) \<le> 1"
    by (rule executeAll_single)
  moreover have "dynamic_rules (handleRestoreFontSize w) = []"
    by (simp add: handleRestoreFontSize_def dynamic_rules_removed t)
  moreover have "dynamic_rules (removeDynamicFontSize False w) = []"
    by (simp add: dynamic_rules_removed t)
  moreover have "adjustFontSize d w = w \<or> dynamic_rules (adjustFontSize d w) = [newRule d w]"
    using dynamic_rules_adjust [of d w] by (simp add: t)
  ultimately show ?thesis by blast
qed

theorem single_dynamic_rule_witness:
  "length (dynamic_rules ex_page) \<le> 1
   \<and> length (dynamic_rules (executeAll
        [VIEW_INCREASE_FONT_SIZE, VIEW_INCREASE_FONT_SIZE, VIEW_SCROLL_LINE_DOWN,
         VIEW_DECREASE_FONT_SIZE, VIEW_INCREASE_FONT_SIZE] ex_page)) \<le> 1
   \<and> dynamic_rules (handleRestoreFontSize ex_page) = []
   \<and> dynamic_rules (adjustFontSize (Num 1) ex_page) = [newRule (Num 1) ex_page]"
proof -
  have h: "length (dynamic_rules ex_page) \<le> 1"
    "adjustFontSize (Num 1) ex_page \<noteq> ex_page"
    by code_simp+
  from single_dynamic_rule [OF h(1), of
      "[VIEW_INCREASE_FONT_SIZE, VIEW_INCREASE_FONT_SIZE, VIEW_SCROLL_LINE_DOWN,
        VIEW_DECREASE_FONT_SIZE, VIEW_INCREASE_FONT_SIZE]" "Num 1"] h
  show ?thesis by simp
qed

text \<open>
  Claim C10, as the specification states it: without a dynamic rule,
  \<open>restoreFontSize()\<close> changes nothing. On the example page, which has no dynamic rule,
  it still calls \<open>refreshAll()\<close> on the editor.
\<close>

theorem restoreFontSize_counter_noop:
  "dynamic_rules ex_page = []
   \<and> calls (full_editor ex_page) = []
   \<and> calls (full_editor (handleRestoreFontSize ex_page)) = [RefreshAll]
   \<and> handleRestoreFontSize ex_page \<noteq> ex_page"
proof -
  have c: "calls (full_editor (handleRestoreFontSize ex_page)) = [RefreshAll]"
    by (simp add: handleRestoreFontSize_def removeDynamicFontSize_def Let_def ex_page_def
          ex_editor_def)
  have d: "calls (full_editor ex_page) = []"
    by (simp add: ex_page_def ex_editor_def)
  from c d have "handleRestoreFontSize ex_page \<noteq> ex_page" by auto
  with c d show ?thesis by (simp add: dynamic_rules_def ex_page_def)
qed

text \<open>
  Claim C10, amended. From a page without a dynamic rule, after any sequence of the
  module's commands, \<open>restoreFontSize()\<close> leaves no dynamic rule, so that the computed
  font size and line height are again those of the page, and refreshes the editor.
  Without a dynamic rule it changes no style rule, scroll position or cursor, but it
  refreshes the editor all the same.
\<close>

theorem restoreFontSize_effect:
  assumes "dynamic_rules w = []"
  shows "dynamic_rules (handleRestoreFontSize (executeAll cs w)) = []
    \<and> css_font_size (handleRestoreFontSize (executeAll cs w)) = css_font_size w
    \<and> css_line_height (handleRestoreFontSize (executeAll cs w)) = css_line_height w
    \<and> full_editor (handleRestoreFontSize (executeAll cs w)) =
        refreshAll (full_editor (executeAll cs w))
    \<and> handleRestoreFontSize w = w\<lparr>full_editor := refreshAll (full_editor w)\<rparr>"
proof -
  from assms have "length (dynamic_rules w) \<le> 1" by simp
  then have "length (dynamic_rules (executeAll cs w)) \<le> 1"
    by (rule executeAll_single)
  then have "tl (dynamic_rules (executeAll cs w)) = []"
    by (rule short_tl)
  then have none: "dynamic_rules (handleRestoreFontSize (executeAll cs w)) = []"
    by (simp add: handleRestoreFontSize_def dynamic_rules_removed)
  have ed: "full_editor (handleRestoreFontSize (executeAll cs w)) =
        refreshAll (full_editor (executeAll cs w))"
    by (simp add: handleRestoreFontSize_def removeDynamicFontSize_def Let_def)
  have bases: "base_font_size (handleRestoreFontSize (executeAll cs w)) = base_font_size w"
    "base_line_height (handleRestoreFontSize (executeAll cs w)) = base_line_height w"
    by (simp_all add: handleRestoreFontSize_def removeDynamicFontSize_def Let_def)
  from assms have same: "handleRestoreFontSize w = w\<lparr>full_editor := refreshAll (full_editor w)\<rparr>"
    by (simp add: handleRestoreFontSize_def removeDynamicFontSize_def Let_def dynamic_rules_def
          remove_none)
  from none bases assms ed same show ?thesis
    by (simp add: css_font_size_def css_line_height_def)
qed

theorem restoreFontSize_effect_witness:
  "dynamic_rules ex_page = []
   \<and> css_font_size (executeAll [VIEW_INCREASE_FONT_SIZE, VIEW_INCREASE_FONT_SIZE] ex_page) = ''14px''
   \<and> css_font_size (handleRestoreFontSize
        (executeAll [VIEW_INCREASE_FONT_SIZE, VIEW_INCREASE_FONT_SIZE] ex_page)) = ''12px''
   \<and> dynamic_rules (handleRestoreFontSize
        (executeAll [VIEW_INCREASE_FONT_SIZE, VIEW_INCREASE_FONT_SIZE] ex_page)) = []"
proof -
  have h: "dynamic_rules ex_page = []"
    "css_font_size (executeAll [VIEW_INCREASE_FONT_SIZE, VIEW_INCREASE_FONT_SIZE] ex_page) = ''14px''"
    "css_font_size ex_page = ''12px''"
    by code_simp+
  from restoreFontSize_effect [OF h(1), of "[VIEW_INCREASE_FONT_SIZE, VIEW_INCREASE_FONT_SIZE]"] h
  show ?thesis by simp
qed

end
